theory Spec2Isabelle
  imports Complex_Main
begin

section \<open>Medical QA and summarization services: the request handlers\<close>

text \<open>
  The repository holds two FastAPI modules. \<^verbatim>\<open>src/1.py\<close> serves \<^verbatim>\<open>POST /answer\<close>
  (extractive question answering) and \<^verbatim>\<open>src/2.py\<close> serves \<^verbatim>\<open>POST /summarize\<close>;
  each also serves \<^verbatim>\<open>GET /health\<close>. A handler reads the request, logs, validates,
  calls one pretrained pipeline and builds a dictionary; all of that sits in one
  \<^verbatim>\<open>try\<close> block whose \<^verbatim>\<open>except Exception as e\<close> logs and raises
  \<^verbatim>\<open>HTTPException(status_code=500, detail=str(e))\<close>.

  The embedding makes the effects explicit. A handler returns the list of events it
  caused, in order (log records and pipeline calls), together with either the exception
  it raises (\<open>Inl\<close>) or the dictionary it returns (\<open>Inr\<close>). The pipelines and the
  rendering \<^verbatim>\<open>str(e)\<close> of an exception belong to the imported libraries; they are the
  fields of a record of module globals that every handler receives. The statements that
  build these globals when the module is imported are embedded too, since a handler
  exists only after they have run.
\<close>

subsection \<open>Python values, exceptions and events\<close>

text \<open>
  The values that the handlers put into their response dictionaries. The type \<open>'f\<close> stands
  for Python's \<^verbatim>\<open>float\<close>; the handlers pass a float on and never compute with it.
\<close>

datatype 'f py_value = PyStr string | PyInt int | PyFloat 'f

text \<open>
  Instances of \<^verbatim>\<open>Exception\<close>, which is what \<^verbatim>\<open>except Exception\<close> catches.
  \<open>HTTPException\<close> carries \<^verbatim>\<open>status_code\<close> and \<^verbatim>\<open>detail\<close>; the others carry their
  constructor argument (for \<open>KeyError\<close> the missing key).
\<close>

datatype py_exception =
    HTTPException (status_code: int) (detail: string)
  | TypeError string
  | KeyError string
  | IndexError string
  | OtherException string

datatype event =
    LogInfo string
  | LogError string
  | CallQA string string
  | CallSummarizer string "int option" "int option" bool

type_synonym 'f py_dict = "string \<rightharpoonup> 'f py_value"

type_synonym 'f response = "(string \<times> 'f py_value) list"

type_synonym 'f outcome = "event list \<times> (py_exception + 'f response)"

text \<open>\<^verbatim>\<open>not s\<close> on a string: true exactly for the string of length zero.\<close>

definition py_not :: "string \<Rightarrow> bool" where
  "py_not s = (length s = 0)"

text \<open>
  \<^verbatim>\<open>a < b\<close> on two values that are each an \<^verbatim>\<open>int\<close> or \<^verbatim>\<open>None\<close>. Python compares
  two ints and raises \<^verbatim>\<open>TypeError\<close> as soon as one operand is \<^verbatim>\<open>None\<close>.
\<close>

definition not_supported :: "string \<Rightarrow> string \<Rightarrow> string" where
  "not_supported l r =
     [CHR 0x27] @ ''<'' @ [CHR 0x27] @ '' not supported between instances of ''
       @ [CHR 0x27] @ l @ [CHR 0x27] @ '' and '' @ [CHR 0x27] @ r @ [CHR 0x27]"

fun py_lt :: "int option \<Rightarrow> int option \<Rightarrow> py_exception + bool" where
  "py_lt (Some a) (Some b) = Inr (a < b)"
| "py_lt (Some a) None = Inl (TypeError (not_supported ''int'' ''NoneType''))"
| "py_lt None (Some b) = Inl (TypeError (not_supported ''NoneType'' ''int''))"
| "py_lt None None = Inl (TypeError (not_supported ''NoneType'' ''NoneType''))"

subsection \<open>\<^verbatim>\<open>src/1.py\<close>: question answering\<close>

text \<open>\<^verbatim>\<open>class QARequest(BaseModel)\<close>: two required strings.\<close>

record QARequest =
  question :: string
  "context" :: string

text \<open>
  The globals of the module that the handlers can reach: the question-answering pipeline
  built at import time, which returns a dictionary or raises, and \<^verbatim>\<open>str\<close> on
  exceptions.
\<close>

record 'f qa_module =
  qa_pipeline :: "string \<Rightarrow> string \<Rightarrow> py_exception + 'f py_dict"
  qa_str :: "py_exception \<Rightarrow> string"

text \<open>The body of the \<^verbatim>\<open>try\<close> block of \<^verbatim>\<open>answer_question\<close>.\<close>

definition answer_question_try :: "'f qa_module \<Rightarrow> QARequest \<Rightarrow> 'f outcome" where
  "answer_question_try m request =
     (let question = QARequest.question request;
          context = QARequest.context request;
          logged = [LogInfo (''Received question: '' @ take 50 question
                      @ ''... with context: '' @ take 50 context @ ''...'')]
      in if py_not question \<or> py_not context
         then (logged, Inl (HTTPException 400 ''Question and context are required''))
         else
           (case qa_pipeline m question context of
              Inl e \<Rightarrow> (logged @ [CallQA question context], Inl e)
            | Inr result \<Rightarrow>
                (case result ''answer'' of
                   None \<Rightarrow> (logged @ [CallQA question context], Inl (KeyError ''answer''))
                 | Some answer \<Rightarrow>
                     (case result ''score'' of
                        None \<Rightarrow> (logged @ [CallQA question context], Inl (KeyError ''score''))
                      | Some score \<Rightarrow>
                          (logged @ [CallQA question context],
                           Inr [(''status'', PyStr ''success''),
                                (''question'', PyStr question),
                                (''answer'', answer),
                                (''confidence'', score)])))))"

text \<open>
  \<^verbatim>\<open>answer_question\<close>: the \<^verbatim>\<open>try\<close> block with its \<^verbatim>\<open>except Exception as e\<close>
  clause, which logs and raises a new \<open>HTTPException\<close> with status 500.
\<close>

definition answer_question :: "'f qa_module \<Rightarrow> QARequest \<Rightarrow> 'f outcome" where
  "answer_question m request =
     (case answer_question_try m request of
        (events, Inl e) \<Rightarrow>
          (events @ [LogError (''Error processing QA request: '' @ qa_str m e)],
           Inl (HTTPException 500 (qa_str m e)))
      | (events, Inr r) \<Rightarrow> (events, Inr r))"

text \<open>\<^verbatim>\<open>health_check\<close> of \<^verbatim>\<open>src/1.py\<close>: it reads no global and returns a constant.\<close>

definition health_check :: "'f qa_module \<Rightarrow> 'f outcome" where
  "health_check m = ([], Inr [(''status'', PyStr ''healthy'')])"

subsection \<open>\<^verbatim>\<open>src/2.py\<close>: summarization\<close>

text \<open>
  \<^verbatim>\<open>class SummaryRequest(BaseModel)\<close>: a required string and two fields declared
  \<^verbatim>\<open>Optional[int]\<close>, so each holds an \<^verbatim>\<open>int\<close> or \<^verbatim>\<open>None\<close>.
\<close>

record SummaryRequest =
  "text" :: string
  max_length :: "int option"
  min_length :: "int option"

text \<open>
  A field of the request body is either left out or given; a given \<^verbatim>\<open>Optional[int]\<close>
  is an integer or JSON \<^verbatim>\<open>null\<close>. Building the request object puts the declared
  default in place of a field that was left out: \<^verbatim>\<open>max_length = 150\<close>,
  \<^verbatim>\<open>min_length = 50\<close>.
\<close>

datatype 'a body_field = Omitted | Given 'a

definition SummaryRequest_init ::
    "string \<Rightarrow> int option body_field \<Rightarrow> int option body_field \<Rightarrow> SummaryRequest" where
  "SummaryRequest_init t mx mn =
     \<lparr> text = t,
       max_length = (case mx of Omitted \<Rightarrow> Some 150 | Given v \<Rightarrow> v),
       min_length = (case mn of Omitted \<Rightarrow> Some 50 | Given v \<Rightarrow> v) \<rparr>"

text \<open>
  The globals of the module: the summarization pipeline, called with the text and the
  keyword arguments \<^verbatim>\<open>max_length\<close>, \<^verbatim>\<open>min_length\<close>, \<^verbatim>\<open>do_sample\<close>, which returns a
  list of dictionaries or raises, and \<^verbatim>\<open>str\<close> on exceptions.
\<close>

record 'f summary_module =
  summarizer :: "string \<Rightarrow> int option \<Rightarrow> int option \<Rightarrow> bool \<Rightarrow> py_exception + 'f py_dict list"
  summary_str :: "py_exception \<Rightarrow> string"

text \<open>
  The body of the \<^verbatim>\<open>try\<close> block of \<^verbatim>\<open>summarize_text\<close>. The statement
  \<^verbatim>\<open>summary = summarizer(...)[0]["summary_text"]\<close> is the call, then the first
  element of its result, then the key of that element.
\<close>

definition summarize_text_try :: "'f summary_module \<Rightarrow> SummaryRequest \<Rightarrow> 'f outcome" where
  "summarize_text_try m request =
     (let text = SummaryRequest.text request;
          max_length = SummaryRequest.max_length request;
          min_length = SummaryRequest.min_length request;
          logged = [LogInfo (''Processing text for summarization: '' @ take 50 text @ ''...'')];
          called = logged @ [CallSummarizer text max_length min_length False]
      in if py_not text
         then (logged, Inl (HTTPException 400 ''Text is required''))
         else
           (case py_lt max_length min_length of
              Inl e \<Rightarrow> (logged, Inl e)
            | Inr True \<Rightarrow>
                (logged, Inl (HTTPException 400 ''max_length must be greater than min_length''))
            | Inr False \<Rightarrow>
                (case summarizer m text max_length min_length False of
                   Inl e \<Rightarrow> (called, Inl e)
                 | Inr [] \<Rightarrow> (called, Inl (IndexError ''list index out of range''))
                 | Inr (first # rest) \<Rightarrow>
                     (case first ''summary_text'' of
                        None \<Rightarrow> (called, Inl (KeyError ''summary_text''))
                      | Some summary \<Rightarrow>
                          (called,
                           Inr [(''status'', PyStr ''success''),
                                (''original_text'', PyStr text),
                                (''summary'', summary)])))))"

text \<open>\<^verbatim>\<open>summarize_text\<close>: the \<^verbatim>\<open>try\<close> block with its \<^verbatim>\<open>except Exception as e\<close> clause.\<close>

definition summarize_text :: "'f summary_module \<Rightarrow> SummaryRequest \<Rightarrow> 'f outcome" where
  "summarize_text m request =
     (case summarize_text_try m request of
        (events, Inl e) \<Rightarrow>
          (events @ [LogError (''Error processing summarization request: '' @ summary_str m e)],
           Inl (HTTPException 500 (summary_str m e)))
      | (events, Inr r) \<Rightarrow> (events, Inr r))"

text \<open>\<^verbatim>\<open>health_check\<close> of \<^verbatim>\<open>src/2.py\<close>, the same function as in \<^verbatim>\<open>src/1.py\<close>.\<close>

definition health_check_summary :: "'f summary_module \<Rightarrow> 'f outcome" where
  "health_check_summary m = ([], Inr [(''status'', PyStr ''healthy'')])"

subsection \<open>Module import: loading the model\<close>

text \<open>
  Both modules start with the same statements, before any handler is defined: inside a
  \<^verbatim>\<open>try\<close>, get the tokenizer by name, get the model by name, build the pipeline for the
  task from the two, and log success; \<^verbatim>\<open>except Exception as e\<close> logs the error and
  re-raises with a bare \<^verbatim>\<open>raise\<close>, so the import of the module fails there. The three
  calls go to the \<^verbatim>\<open>transformers\<close> library and are the fields of a record, together
  with \<^verbatim>\<open>str\<close> on exceptions; \<open>AutoModel_from_pretrained\<close> stands for
  \<^verbatim>\<open>AutoModelForQuestionAnswering.from_pretrained\<close> in \<^verbatim>\<open>src/1.py\<close> and for
  \<^verbatim>\<open>AutoModelForSeq2SeqLM.from_pretrained\<close> in \<^verbatim>\<open>src/2.py\<close>.
\<close>

record ('tok, 'mod, 'p) transformers =
  AutoTokenizer_from_pretrained :: "string \<Rightarrow> py_exception + 'tok"
  AutoModel_from_pretrained :: "string \<Rightarrow> py_exception + 'mod"
  pipeline :: "string \<Rightarrow> 'mod \<Rightarrow> 'tok \<Rightarrow> py_exception + 'p"
  py_str :: "py_exception \<Rightarrow> string"

type_synonym 'f qa_callable = "string \<Rightarrow> string \<Rightarrow> py_exception + 'f py_dict"

type_synonym 'f summarizer_callable =
  "string \<Rightarrow> int option \<Rightarrow> int option \<Rightarrow> bool \<Rightarrow> py_exception + 'f py_dict list"

text \<open>
  Lines 15 to 24 of \<^verbatim>\<open>src/1.py\<close>. The result is the events of the import and either
  the exception that the import re-raises or the globals that the handlers will see.
\<close>

definition load_qa_module ::
    "('tok, 'mod, 'f qa_callable) transformers \<Rightarrow> event list \<times> (py_exception + 'f qa_module)" where
  "load_qa_module lib =
     (let model_name = ''dmis-lab/biobert-base-cased-v1.1'';
          failed = (\<lambda>e. ([LogError (''Error loading BioBERT model: '' @ py_str lib e)], Inl e))
      in case AutoTokenizer_from_pretrained lib model_name of
           Inl e \<Rightarrow> failed e
         | Inr tokenizer \<Rightarrow>
             (case AutoModel_from_pretrained lib model_name of
                Inl e \<Rightarrow> failed e
              | Inr model \<Rightarrow>
                  (case pipeline lib ''question-answering'' model tokenizer of
                     Inl e \<Rightarrow> failed e
                   | Inr p \<Rightarrow>
                       ([LogInfo (''BioBERT model ('' @ model_name @ '') loaded successfully'')],
                        Inr \<lparr> qa_pipeline = p, qa_str = py_str lib \<rparr>))))"

text \<open>Lines 15 to 24 of \<^verbatim>\<open>src/2.py\<close>.\<close>

definition load_summary_module ::
    "('tok, 'mod, 'f summarizer_callable) transformers
       \<Rightarrow> event list \<times> (py_exception + 'f summary_module)" where
  "load_summary_module lib =
     (let model_name = ''t5-small'';
          failed = (\<lambda>e. ([LogError (''Error loading T5 model: '' @ py_str lib e)], Inl e))
      in case AutoTokenizer_from_pretrained lib model_name of
           Inl e \<Rightarrow> failed e
         | Inr tokenizer \<Rightarrow>
             (case AutoModel_from_pretrained lib model_name of
                Inl e \<Rightarrow> failed e
              | Inr model \<Rightarrow>
                  (case pipeline lib ''summarization'' model tokenizer of
                     Inl e \<Rightarrow> failed e
                   | Inr p \<Rightarrow>
                       ([LogInfo (''T5 model ('' @ model_name @ '') loaded successfully'')],
                        Inr \<lparr> summarizer = p, summary_str = py_str lib \<rparr>))))"

text \<open>
  A \<^verbatim>\<open>GET /health\<close> sent to a process that imports the module: the import runs first.
  When it raised, the \<^verbatim>\<open>def health_check\<close> further down the file was never reached and
  the outcome is that exception; otherwise the handler runs with the loaded globals.
\<close>

definition qa_service_health :: "('tok, 'mod, 'f qa_callable) transformers \<Rightarrow> 'f outcome" where
  "qa_service_health lib =
     (case load_qa_module lib of
        (events, Inl e) \<Rightarrow> (events, Inl e)
      | (events, Inr m) \<Rightarrow> (events @ fst (health_check m), snd (health_check m)))"

definition summary_service_health ::
    "('tok, 'mod, 'f summarizer_callable) transformers \<Rightarrow> 'f outcome" where
  "summary_service_health lib =
     (case load_summary_module lib of
        (events, Inl e) \<Rightarrow> (events, Inl e)
      | (events, Inr m) \<Rightarrow> (events @ fst (health_check_summary m), snd (health_check_summary m)))"

subsection \<open>Observations on an outcome\<close>

text \<open>
  The calls to a pipeline among the events of a handler, in order, and the HTTP status
  that the framework sends for an outcome: the \<^verbatim>\<open>status_code\<close> of a raised
  \<open>HTTPException\<close>, 200 for a returned dictionary. A handler that lets another exception
  escape gives no status here.
\<close>

fun is_inference_call :: "event \<Rightarrow> bool" where
  "is_inference_call (CallQA q c) = True"
| "is_inference_call (CallSummarizer t mx mn s) = True"
| "is_inference_call (LogInfo s) = False"
| "is_inference_call (LogError s) = False"

definition inference_calls :: "'f outcome \<Rightarrow> event list" where
  "inference_calls out = filter is_inference_call (fst out)"

fun http_status :: "'f outcome \<Rightarrow> int option" where
  "http_status (events, Inr r) = Some 200"
| "http_status (events, Inl (HTTPException s d)) = Some s"
| "http_status (events, Inl e) = None"

subsection \<open>Example globals\<close>

text \<open>
  One rendering of \<^verbatim>\<open>str(e)\<close>, used for the concrete instances below: the message of
  an exception built from a message, the quoted key of a \<open>KeyError\<close>, and the empty
  string for an \<open>HTTPException\<close> built from keyword arguments only. The general theorems
  hold for every rendering.
\<close>

fun str_example :: "py_exception \<Rightarrow> string" where
  "str_example (HTTPException s d) = []"
| "str_example (TypeError msg) = msg"
| "str_example (KeyError k) = [CHR 0x27] @ k @ [CHR 0x27]"
| "str_example (IndexError msg) = msg"
| "str_example (OtherException msg) = msg"

text \<open>
  A question-answering pipeline that gives the span of the usage example of
  \<^verbatim>\<open>src/1.py\<close>, and one that fails.
\<close>

definition qa_example :: "real qa_module" where
  "qa_example =
     \<lparr> qa_pipeline = (\<lambda>q c. Inr [''score'' \<mapsto> PyFloat 0.8923, ''start'' \<mapsto> PyInt 81,
                                   ''end'' \<mapsto> PyInt 101,
                                   ''answer'' \<mapsto> PyStr ''metformin or insulin'']),
       qa_str = str_example \<rparr>"

definition qa_failing :: "real qa_module" where
  "qa_failing =
     \<lparr> qa_pipeline = (\<lambda>q c. Inl (OtherException ''CUDA out of memory'')),
       qa_str = str_example \<rparr>"

text \<open>A summarizer that returns the first sixteen characters of the text, and one that fails.\<close>

definition summary_example :: "real summary_module" where
  "summary_example =
     \<lparr> summarizer = (\<lambda>t mx mn s. Inr [[''summary_text'' \<mapsto> PyStr (take 16 t)]]),
       summary_str = str_example \<rparr>"

definition summary_failing :: "real summary_module" where
  "summary_failing =
     \<lparr> summarizer = (\<lambda>t mx mn s. Inl (OtherException ''CUDA out of memory'')),
       summary_str = str_example \<rparr>"

text \<open>
  Libraries for the import: one that loads everything and hands out the example pipeline,
  and one whose model download fails.
\<close>

definition qa_library_example :: "(string, string, real qa_callable) transformers" where
  "qa_library_example =
     \<lparr> AutoTokenizer_from_pretrained = (\<lambda>name. Inr name),
       AutoModel_from_pretrained = (\<lambda>name. Inr name),
       pipeline = (\<lambda>task model tokenizer. Inr (qa_pipeline qa_example)),
       py_str = str_example \<rparr>"

definition qa_library_failing :: "(string, string, real qa_callable) transformers" where
  "qa_library_failing =
     \<lparr> AutoTokenizer_from_pretrained = (\<lambda>name. Inr name),
       AutoModel_from_pretrained = (\<lambda>name. Inl (OtherException ''Connection error'')),
       pipeline = (\<lambda>task model tokenizer. Inr (qa_pipeline qa_example)),
       py_str = str_example \<rparr>"

definition summary_library_example ::
    "(string, string, real summarizer_callable) transformers" where
  "summary_library_example =
     \<lparr> AutoTokenizer_from_pretrained = (\<lambda>name. Inr name),
       AutoModel_from_pretrained = (\<lambda>name. Inr name),
       pipeline = (\<lambda>task model tokenizer. Inr (summarizer summary_example)),
       py_str = str_example \<rparr>"

definition summary_library_failing ::
    "(string, string, real summarizer_callable) transformers" where
  "summary_library_failing =
     \<lparr> AutoTokenizer_from_pretrained = (\<lambda>name. Inl (OtherException ''Connection error'')),
       AutoModel_from_pretrained = (\<lambda>name. Inr name),
       pipeline = (\<lambda>task model tokenizer. Inr (summarizer summary_example)),
       py_str = str_example \<rparr>"

section \<open>Properties of the handlers\<close>

subsection \<open>The two layers of a handler\<close>

text \<open>
  What the \<^verbatim>\<open>except\<close> clause does to the outcome of the \<^verbatim>\<open>try\<close> block: it adds a
  log record only, and it turns every raised exception into a status-500
  \<open>HTTPException\<close> whose detail is the rendering of that exception.
\<close>

lemma answer_question_calls:
  "filter is_inference_call (fst (answer_question m r)) =
     filter is_inference_call (fst (answer_question_try m r))"
  by (cases "answer_question_try m r") (auto simp: answer_question_def split: sum.splits)

lemma summarize_text_calls:
  "filter is_inference_call (fst (summarize_text m r)) =
     filter is_inference_call (fst (summarize_text_try m r))"
  by (cases "summarize_text_try m r") (auto simp: summarize_text_def split: sum.splits)

lemma answer_question_snd:
  "snd (answer_question m r) =
     (case snd (answer_question_try m r) of
        Inl e \<Rightarrow> Inl (HTTPException 500 (qa_str m e)) | Inr v \<Rightarrow> Inr v)"
  by (cases "answer_question_try m r") (auto simp: answer_question_def split: sum.splits)

lemma summarize_text_snd:
  "snd (summarize_text m r) =
     (case snd (summarize_text_try m r) of
        Inl e \<Rightarrow> Inl (HTTPException 500 (summary_str m e)) | Inr v \<Rightarrow> Inr v)"
  by (cases "summarize_text_try m r") (auto simp: summarize_text_def split: sum.splits)

lemma http_status_snd:
  "http_status out =
     (case snd out of
        Inr v \<Rightarrow> Some 200
      | Inl (HTTPException s d) \<Rightarrow> Some s
      | Inl _ \<Rightarrow> None)"
  by (cases out rule: http_status.cases) auto

lemma answer_question_try_invalid:
  "question r = [] \<or> context r = [] \<Longrightarrow>
   snd (answer_question_try m r) = Inl (HTTPException 400 ''Question and context are required'')
   \<and> filter is_inference_call (fst (answer_question_try m r)) = []"
  by (auto simp: answer_question_try_def py_not_def Let_def)

lemma answer_question_try_valid:
  "question r \<noteq> [] \<Longrightarrow> context r \<noteq> [] \<Longrightarrow>
   filter is_inference_call (fst (answer_question_try m r)) = [CallQA (question r) (context r)]"
  by (auto simp: answer_question_try_def py_not_def Let_def split: sum.splits option.splits)

subsection \<open>Health\<close>

text \<open>The handler itself: a constant, whatever the module globals are.\<close>

lemma health_check_constant:
  "health_check m = ([], Inr [(''status'', PyStr ''healthy'')])
   \<and> health_check_summary m' = ([], Inr [(''status'', PyStr ''healthy'')])"
  by (simp add: health_check_def health_check_summary_def)

text \<open>The import succeeds exactly when the three library calls succeed, in this order.\<close>

lemma load_qa_module_loaded:
  "AutoTokenizer_from_pretrained lib ''dmis-lab/biobert-base-cased-v1.1'' = Inr tok \<Longrightarrow>
   AutoModel_from_pretrained lib ''dmis-lab/biobert-base-cased-v1.1'' = Inr mdl \<Longrightarrow>
   pipeline lib ''question-answering'' mdl tok = Inr p \<Longrightarrow>
   load_qa_module lib =
     ([LogInfo ''BioBERT model (dmis-lab/biobert-base-cased-v1.1) loaded successfully''],
      Inr \<lparr> qa_pipeline = p, qa_str = py_str lib \<rparr>)"
  by (simp add: load_qa_module_def)

lemma load_summary_module_loaded:
  "AutoTokenizer_from_pretrained lib ''t5-small'' = Inr tok \<Longrightarrow>
   AutoModel_from_pretrained lib ''t5-small'' = Inr mdl \<Longrightarrow>
   pipeline lib ''summarization'' mdl tok = Inr p \<Longrightarrow>
   load_summary_module lib =
     ([LogInfo ''T5 model (t5-small) loaded successfully''],
      Inr \<lparr> summarizer = p, summary_str = py_str lib \<rparr>)"
  by (simp add: load_summary_module_def)

lemma load_qa_module_failed:
  "snd (load_qa_module lib) = Inl e \<Longrightarrow>
   load_qa_module lib = ([LogError (''Error loading BioBERT model: '' @ py_str lib e)], Inl e)"
  by (auto simp: load_qa_module_def Let_def split: sum.splits)

lemma load_summary_module_failed:
  "snd (load_summary_module lib) = Inl e \<Longrightarrow>
   load_summary_module lib = ([LogError (''Error loading T5 model: '' @ py_str lib e)], Inl e)"
  by (auto simp: load_summary_module_def Let_def split: sum.splits)

text \<open>
  C8, as the code has it. The claim says that every \<^verbatim>\<open>GET /health\<close> returns
  \<^verbatim>\<open>{"status": "healthy"}\<close>, independent of any model state and with no dependency on
  the model loader having succeeded. The handler is indeed a constant that reads no
  global, so once the module is imported the answer does not depend on what was loaded.
  But the handler is defined after the loading statements, and a failed load re-raises:
  then the import fails and nothing answers. With a library whose download fails, the
  outcome of a health request is the re-raised exception.
\<close>

theorem health_check_failed_load_counterexample:
  "qa_service_health qa_library_failing =
     ([LogError ''Error loading BioBERT model: Connection error''],
      Inl (OtherException ''Connection error''))
 \<and> snd (qa_service_health qa_library_failing) \<noteq> Inr [(''status'', PyStr ''healthy'')]
 \<and> summary_service_health summary_library_failing =
     ([LogError ''Error loading T5 model: Connection error''],
      Inl (OtherException ''Connection error''))
 \<and> snd (summary_service_health summary_library_failing) \<noteq> Inr [(''status'', PyStr ''healthy'')]"
  by (simp add: qa_service_health_def summary_service_health_def load_qa_module_def
      load_summary_module_def qa_library_failing_def summary_library_failing_def)

text \<open>
  C8, amended. When the import of the module completed, that is when the tokenizer, the
  model and the pipeline were all obtained, \<^verbatim>\<open>GET /health\<close> returns exactly
  \<^verbatim>\<open>{"status": "healthy"}\<close> with status 200, whatever pipeline was loaded, and the
  handler adds no event: it calls no pipeline and writes no log. When the import raised
  \<open>e\<close>, the outcome of the request is \<open>e\<close> and there is no response.
\<close>

theorem health_check_after_load:
  "(AutoTokenizer_from_pretrained lib ''dmis-lab/biobert-base-cased-v1.1'' = Inr tok
      \<and> AutoModel_from_pretrained lib ''dmis-lab/biobert-base-cased-v1.1'' = Inr mdl
      \<and> pipeline lib ''question-answering'' mdl tok = Inr p \<longrightarrow>
    qa_service_health lib =
      ([LogInfo ''BioBERT model (dmis-lab/biobert-base-cased-v1.1) loaded successfully''],
       Inr [(''status'', PyStr ''healthy'')])
    \<and> http_status (qa_service_health lib) = Some 200)
 \<and> (AutoTokenizer_from_pretrained lib' ''t5-small'' = Inr tok'
      \<and> AutoModel_from_pretrained lib' ''t5-small'' = Inr mdl'
      \<and> pipeline lib' ''summarization'' mdl' tok' = Inr p' \<longrightarrow>
    summary_service_health lib' =
      ([LogInfo ''T5 model (t5-small) loaded successfully''],
       Inr [(''status'', PyStr ''healthy'')])
    \<and> http_status (summary_service_health lib') = Some 200)
 \<and> (snd (load_qa_module lib) = Inr m \<longrightarrow>
      qa_service_health lib =
        (fst (load_qa_module lib), Inr [(''status'', PyStr ''healthy'')]))
 \<and> (snd (load_summary_module lib') = Inr m' \<longrightarrow>
      summary_service_health lib' =
        (fst (load_summary_module lib'), Inr [(''status'', PyStr ''healthy'')]))
 \<and> (snd (load_qa_module lib) = Inl e \<longrightarrow>
      qa_service_health lib =
        ([LogError (''Error loading BioBERT model: '' @ py_str lib e)], Inl e))
 \<and> (snd (load_summary_module lib') = Inl e' \<longrightarrow>
      summary_service_health lib' =
        ([LogError (''Error loading T5 model: '' @ py_str lib' e')], Inl e'))"
proof (intro conjI impI)
  assume a: "AutoTokenizer_from_pretrained lib ''dmis-lab/biobert-base-cased-v1.1'' = Inr tok
      \<and> AutoModel_from_pretrained lib ''dmis-lab/biobert-base-cased-v1.1'' = Inr mdl
      \<and> pipeline lib ''question-answering'' mdl tok = Inr p"
  then have "load_qa_module lib =
     ([LogInfo ''BioBERT model (dmis-lab/biobert-base-cased-v1.1) loaded successfully''],
      Inr \<lparr> qa_pipeline = p, qa_str = py_str lib \<rparr>)"
    by (simp add: load_qa_module_loaded)
  then show "qa_service_health lib =
      ([LogInfo ''BioBERT model (dmis-lab/biobert-base-cased-v1.1) loaded successfully''],
       Inr [(''status'', PyStr ''healthy'')])"
    and "http_status (qa_service_health lib) = Some 200"
    by (simp_all add: qa_service_health_def health_check_constant)
next
  assume a: "AutoTokenizer_from_pretrained lib' ''t5-small'' = Inr tok'
      \<and> AutoModel_from_pretrained lib' ''t5-small'' = Inr mdl'
      \<and> pipeline lib' ''summarization'' mdl' tok' = Inr p'"
  then have "load_summary_module lib' =
     ([LogInfo ''T5 model (t5-small) loaded successfully''],
      Inr \<lparr> summarizer = p', summary_str = py_str lib' \<rparr>)"
    by (simp add: load_summary_module_loaded)
  then show "summary_service_health lib' =
      ([LogInfo ''T5 model (t5-small) loaded successfully''],
       Inr [(''status'', PyStr ''healthy'')])"
    and "http_status (summary_service_health lib') = Some 200"
    by (simp_all add: summary_service_health_def health_check_constant)
next
  assume "snd (load_qa_module lib) = Inr m"
  then show "qa_service_health lib =
      (fst (load_qa_module lib), Inr [(''status'', PyStr ''healthy'')])"
    by (cases "load_qa_module lib") (simp add: qa_service_health_def health_check_constant)
next
  assume "snd (load_summary_module lib') = Inr m'"
  then show "summary_service_health lib' =
      (fst (load_summary_module lib'), Inr [(''status'', PyStr ''healthy'')])"
    by (cases "load_summary_module lib'")
      (simp add: summary_service_health_def health_check_constant)
next
  assume "snd (load_qa_module lib) = Inl e"
  from load_qa_module_failed[OF this]
  show "qa_service_health lib =
      ([LogError (''Error loading BioBERT model: '' @ py_str lib e)], Inl e)"
    by (simp add: qa_service_health_def)
next
  assume "snd (load_summary_module lib') = Inl e'"
  from load_summary_module_failed[OF this]
  show "summary_service_health lib' =
      ([LogError (''Error loading T5 model: '' @ py_str lib' e')], Inl e')"
    by (simp add: summary_service_health_def)
qed

text \<open>
  The instance: both example libraries load, and both health requests are answered; the
  two failing libraries raise at import.
\<close>

theorem health_check_after_load_witness:
  "pipeline qa_library_example ''question-answering'' ''dmis-lab/biobert-base-cased-v1.1''
      ''dmis-lab/biobert-base-cased-v1.1'' = Inr (qa_pipeline qa_example)
 \<and> qa_service_health qa_library_example =
     ([LogInfo ''BioBERT model (dmis-lab/biobert-base-cased-v1.1) loaded successfully''],
      Inr [(''status'', PyStr ''healthy'')])
 \<and> pipeline summary_library_example ''summarization'' ''t5-small'' ''t5-small'' =
     Inr (summarizer summary_example)
 \<and> summary_service_health summary_library_example =
     ([LogInfo ''T5 model (t5-small) loaded successfully''],
      Inr [(''status'', PyStr ''healthy'')])
 \<and> snd (load_qa_module qa_library_example) = Inr qa_example
 \<and> snd (load_summary_module summary_library_example) = Inr summary_example
 \<and> snd (load_qa_module qa_library_failing) = Inl (OtherException ''Connection error'')
 \<and> qa_service_health qa_library_failing =
     ([LogError ''Error loading BioBERT model: Connection error''],
      Inl (OtherException ''Connection error''))
 \<and> snd (load_summary_module summary_library_failing) =
     Inl (OtherException ''Connection error'')
 \<and> summary_service_health summary_library_failing =
     ([LogError ''Error loading T5 model: Connection error''],
      Inl (OtherException ''Connection error''))"
proof -
  let ?n = "''dmis-lab/biobert-base-cased-v1.1''"
  let ?e = "OtherException ''Connection error''"
  have h1: "AutoTokenizer_from_pretrained qa_library_example ?n = Inr ?n
      \<and> AutoModel_from_pretrained qa_library_example ?n = Inr ?n
      \<and> pipeline qa_library_example ''question-answering'' ?n ?n = Inr (qa_pipeline qa_example)"
    by (simp add: qa_library_example_def)
  have h2: "AutoTokenizer_from_pretrained summary_library_example ''t5-small'' = Inr ''t5-small''
      \<and> AutoModel_from_pretrained summary_library_example ''t5-small'' = Inr ''t5-small''
      \<and> pipeline summary_library_example ''summarization'' ''t5-small'' ''t5-small'' =
          Inr (summarizer summary_example)"
    by (simp add: summary_library_example_def)
  have h3: "snd (load_qa_module qa_library_example) = Inr qa_example"
    by (simp add: load_qa_module_def qa_library_example_def qa_example_def)
  have h4: "snd (load_summary_module summary_library_example) = Inr summary_example"
    by (simp add: load_summary_module_def summary_library_example_def summary_example_def)
  have h5: "snd (load_qa_module qa_library_failing) = Inl ?e"
    by (simp add: load_qa_module_def qa_library_failing_def)
  have h6: "snd (load_summary_module summary_library_failing) = Inl ?e"
    by (simp add: load_summary_module_def summary_library_failing_def)
  note t1 = health_check_after_load
    [where lib = qa_library_example and tok = ?n and mdl = ?n
       and p = "qa_pipeline qa_example" and lib' = summary_library_example
       and tok' = "''t5-small''" and mdl' = "''t5-small''"
       and p' = "summarizer summary_example" and m = qa_example and m' = summary_example]
  note t2 = health_check_after_load
    [where lib = qa_library_failing and lib' = summary_library_failing
       and e = ?e and e' = ?e]
  have c1: "qa_service_health qa_library_example =
     ([LogInfo ''BioBERT model (dmis-lab/biobert-base-cased-v1.1) loaded successfully''],
      Inr [(''status'', PyStr ''healthy'')])"
    using t1 h1 by blast
  have c2: "summary_service_health summary_library_example =
     ([LogInfo ''T5 model (t5-small) loaded successfully''],
      Inr [(''status'', PyStr ''healthy'')])"
    using t1 h2 by blast
  have c3: "qa_service_health qa_library_failing =
     ([LogError (''Error loading BioBERT model: '' @ py_str qa_library_failing ?e)], Inl ?e)"
    using t2 h5 by blast
  have c4: "summary_service_health summary_library_failing =
     ([LogError (''Error loading T5 model: '' @ py_str summary_library_failing ?e)], Inl ?e)"
    using t2 h6 by blast
  have s: "py_str qa_library_failing = str_example" "py_str summary_library_failing = str_example"
    by (simp_all add: qa_library_failing_def summary_library_failing_def)
  show ?thesis
    using h1 h2 h3 h4 h5 h6 c1 c2 c3 c4 by (simp add: s)
qed

subsection \<open>Validation errors\<close>

text \<open>
  C1. The claim is that a request to \<^verbatim>\<open>/answer\<close> with an empty question or an empty
  context gets status 400 with the message "Question and context are required", and that
  the pipeline is not called. At the request with an empty question below the pipeline
  is indeed not called, but the \<open>HTTPException\<close> with status 400 is raised inside the
  \<^verbatim>\<open>try\<close> block, caught by \<^verbatim>\<open>except Exception\<close> and replaced: the handler raises
  status 500, and the detail is the rendering of the caught exception.
\<close>

theorem answer_question_empty_question_500:
  "answer_question m \<lparr>question = '''', context = ''Diabetes is a chronic condition.''\<rparr> =
     ([LogInfo ''Received question: ... with context: Diabetes is a chronic condition....'',
       LogError (''Error processing QA request: ''
         @ qa_str m (HTTPException 400 ''Question and context are required''))],
      Inl (HTTPException 500
        (qa_str m (HTTPException 400 ''Question and context are required''))))
   \<and> http_status
        (answer_question m \<lparr>question = '''', context = ''Diabetes is a chronic condition.''\<rparr>)
       = Some 500"
  by (simp add: answer_question_def answer_question_try_def py_not_def)

subsection \<open>The paths through \<^verbatim>\<open>summarize_text\<close>\<close>

lemma summarize_text_try_empty:
  "text r = [] \<Longrightarrow>
   summarize_text_try m r =
     ([LogInfo (''Processing text for summarization: '' @ take 50 (text r) @ ''...'')],
      Inl (HTTPException 400 ''Text is required''))"
  by (simp add: summarize_text_try_def py_not_def Let_def)

lemma summarize_text_try_compare_raises:
  "text r \<noteq> [] \<Longrightarrow> py_lt (max_length r) (min_length r) = Inl e \<Longrightarrow>
   summarize_text_try m r =
     ([LogInfo (''Processing text for summarization: '' @ take 50 (text r) @ ''...'')], Inl e)"
  by (simp add: summarize_text_try_def py_not_def Let_def)

lemma summarize_text_try_less:
  "text r \<noteq> [] \<Longrightarrow> py_lt (max_length r) (min_length r) = Inr True \<Longrightarrow>
   summarize_text_try m r =
     ([LogInfo (''Processing text for summarization: '' @ take 50 (text r) @ ''...'')],
      Inl (HTTPException 400 ''max_length must be greater than min_length''))"
  by (simp add: summarize_text_try_def py_not_def Let_def)

lemma summarize_text_try_valid:
  "text r \<noteq> [] \<Longrightarrow> py_lt (max_length r) (min_length r) = Inr False \<Longrightarrow>
   filter is_inference_call (fst (summarize_text_try m r)) =
     [CallSummarizer (text r) (max_length r) (min_length r) False]"
  by (simp add: summarize_text_try_def py_not_def Let_def
      split: sum.splits list.splits option.splits)

lemma summarize_text_try_called:
  "filter is_inference_call (fst (summarize_text_try m r)) \<noteq> [] \<Longrightarrow>
   text r \<noteq> [] \<and> py_lt (max_length r) (min_length r) = Inr False"
  by (auto simp: summarize_text_try_def py_not_def Let_def
      split: sum.splits list.splits option.splits if_splits bool.splits)

lemma summarize_text_try_pipeline_raises:
  "text r \<noteq> [] \<Longrightarrow> py_lt (max_length r) (min_length r) = Inr False \<Longrightarrow>
   summarizer m (text r) (max_length r) (min_length r) False = Inl e \<Longrightarrow>
   snd (summarize_text_try m r) = Inl e"
  by (simp add: summarize_text_try_def py_not_def Let_def)

lemma summarize_text_try_success:
  "text r \<noteq> [] \<Longrightarrow> py_lt (max_length r) (min_length r) = Inr False \<Longrightarrow>
   summarizer m (text r) (max_length r) (min_length r) False = Inr (d # ds) \<Longrightarrow>
   d ''summary_text'' = Some s \<Longrightarrow>
   snd (summarize_text_try m r) =
     Inr [(''status'', PyStr ''success''), (''original_text'', PyStr (text r)),
          (''summary'', s)]"
  by (simp add: summarize_text_try_def py_not_def Let_def)

lemma py_lt_None: "mx = None \<or> mn = None \<Longrightarrow> \<exists>msg. py_lt mx mn = Inl (TypeError msg)"
  by (cases mx; cases mn) auto

subsection \<open>The paths through \<^verbatim>\<open>answer_question\<close>\<close>

lemma answer_question_try_called:
  "filter is_inference_call (fst (answer_question_try m r)) \<noteq> [] \<Longrightarrow>
   question r \<noteq> [] \<and> context r \<noteq> []"
  by (auto simp: answer_question_try_def py_not_def Let_def
      split: sum.splits list.splits option.splits if_splits)

lemma answer_question_try_pipeline_raises:
  "question r \<noteq> [] \<Longrightarrow> context r \<noteq> [] \<Longrightarrow>
   qa_pipeline m (question r) (context r) = Inl e \<Longrightarrow>
   snd (answer_question_try m r) = Inl e"
  by (simp add: answer_question_try_def py_not_def Let_def)

lemma answer_question_try_success:
  "question r \<noteq> [] \<Longrightarrow> context r \<noteq> [] \<Longrightarrow>
   qa_pipeline m (question r) (context r) = Inr d \<Longrightarrow>
   d ''answer'' = Some a \<Longrightarrow> d ''score'' = Some s \<Longrightarrow>
   snd (answer_question_try m r) =
     Inr [(''status'', PyStr ''success''), (''question'', PyStr (question r)),
          (''answer'', a), (''confidence'', s)]"
  by (simp add: answer_question_try_def py_not_def Let_def)

subsection \<open>Every error is a 500\<close>

text \<open>
  C2. Whenever \<^verbatim>\<open>answer_question\<close> or \<^verbatim>\<open>summarize_text\<close> raises, the \<^verbatim>\<open>try\<close> block
  raised some exception \<open>c\<close> and the handler raises an \<open>HTTPException\<close> with status 500
  whose detail is \<^verbatim>\<open>str(c)\<close>. This holds for the handler's own validation errors too:
  the status-400 exceptions for an empty question or context, for an empty text and for
  \<^verbatim>\<open>max_length < min_length\<close> are each caught and replaced by a 500 that carries their
  rendering. No outcome of either handler has status 400.
\<close>

theorem handler_errors_always_500:
  "(snd (answer_question m r) = Inl e \<longrightarrow>
      (\<exists>c. snd (answer_question_try m r) = Inl c \<and> e = HTTPException 500 (qa_str m c)))
 \<and> (snd (summarize_text m' r') = Inl e' \<longrightarrow>
      (\<exists>c. snd (summarize_text_try m' r') = Inl c \<and> e' = HTTPException 500 (summary_str m' c)))
 \<and> (question r = [] \<or> context r = [] \<longrightarrow>
      snd (answer_question m r) =
        Inl (HTTPException 500 (qa_str m (HTTPException 400 ''Question and context are required''))))
 \<and> (text r' = [] \<longrightarrow>
      snd (summarize_text m' r') =
        Inl (HTTPException 500 (summary_str m' (HTTPException 400 ''Text is required''))))
 \<and> (text r' \<noteq> [] \<and> py_lt (max_length r') (min_length r') = Inr True \<longrightarrow>
      snd (summarize_text m' r') =
        Inl (HTTPException 500
          (summary_str m' (HTTPException 400 ''max_length must be greater than min_length''))))
 \<and> http_status (answer_question m r) \<noteq> Some 400
 \<and> http_status (summarize_text m' r') \<noteq> Some 400"
proof (intro conjI impI)
  assume "snd (answer_question m r) = Inl e"
  then show "\<exists>c. snd (answer_question_try m r) = Inl c \<and> e = HTTPException 500 (qa_str m c)"
    by (auto simp: answer_question_snd split: sum.splits)
next
  assume "snd (summarize_text m' r') = Inl e'"
  then show "\<exists>c. snd (summarize_text_try m' r') = Inl c
      \<and> e' = HTTPException 500 (summary_str m' c)"
    by (auto simp: summarize_text_snd split: sum.splits)
next
  assume "question r = [] \<or> context r = []"
  from answer_question_try_invalid[OF this, of m]
  show "snd (answer_question m r) =
      Inl (HTTPException 500 (qa_str m (HTTPException 400 ''Question and context are required'')))"
    by (simp add: answer_question_snd)
next
  assume "text r' = []"
  then show "snd (summarize_text m' r') =
      Inl (HTTPException 500 (summary_str m' (HTTPException 400 ''Text is required'')))"
    by (simp add: summarize_text_snd summarize_text_try_empty)
next
  assume "text r' \<noteq> [] \<and> py_lt (max_length r') (min_length r') = Inr True"
  then show "snd (summarize_text m' r') =
      Inl (HTTPException 500
        (summary_str m' (HTTPException 400 ''max_length must be greater than min_length'')))"
    by (simp add: summarize_text_snd summarize_text_try_less)
next
  show "http_status (answer_question m r) \<noteq> Some 400"
    by (simp add: http_status_snd answer_question_snd split: sum.splits)
next
  show "http_status (summarize_text m' r') \<noteq> Some 400"
    by (simp add: http_status_snd summarize_text_snd split: sum.splits)
qed

text \<open>
  The instance: an empty question to \<^verbatim>\<open>/answer\<close>, and to \<^verbatim>\<open>/summarize\<close> an empty
  text and then the third scenario of the specification (\<^verbatim>\<open>max_length\<close> 10,
  \<^verbatim>\<open>min_length\<close> 50).
\<close>

theorem handler_errors_always_500_witness:
  "question \<lparr>question = '''', context = ''Diabetes is a chronic condition.''\<rparr> = []
 \<and> snd (answer_question qa_example
        \<lparr>question = '''', context = ''Diabetes is a chronic condition.''\<rparr>) =
     Inl (HTTPException 500
       (str_example (HTTPException 400 ''Question and context are required'')))
 \<and> text \<lparr>text = '''', max_length = Some 150, min_length = Some 50\<rparr> = []
 \<and> snd (summarize_text summary_example
        \<lparr>text = '''', max_length = Some 150, min_length = Some 50\<rparr>) =
     Inl (HTTPException 500 (str_example (HTTPException 400 ''Text is required'')))
 \<and> py_lt (Some 10) (Some 50) = Inr True
 \<and> snd (summarize_text summary_example
        \<lparr>text = ''Patient stable.'', max_length = Some 10, min_length = Some 50\<rparr>) =
     Inl (HTTPException 500
       (str_example (HTTPException 400 ''max_length must be greater than min_length'')))
 \<and> (\<exists>c. snd (answer_question_try qa_example
        \<lparr>question = '''', context = ''Diabetes is a chronic condition.''\<rparr>) = Inl c
      \<and> HTTPException 500 [] = HTTPException 500 (str_example c))"
proof -
  let ?q = "\<lparr>question = '''', context = ''Diabetes is a chronic condition.''\<rparr>"
  let ?s1 = "\<lparr>text = '''', max_length = Some 150, min_length = Some 50\<rparr>"
  let ?s2 = "\<lparr>text = ''Patient stable.'', max_length = Some 10, min_length = Some 50\<rparr>"
  have h1: "question ?q = [] \<or> context ?q = []" by simp
  have h2: "text ?s1 = []" by simp
  have h3: "text ?s2 \<noteq> [] \<and> py_lt (max_length ?s2) (min_length ?s2) = Inr True" by simp
  note t1 = handler_errors_always_500
    [where m = qa_example and r = ?q and m' = summary_example and r' = ?s1
       and e = "HTTPException 500 []"]
  note t2 = handler_errors_always_500
    [where m = qa_example and r = ?q and m' = summary_example and r' = ?s2]
  have a: "snd (answer_question qa_example ?q) =
      Inl (HTTPException 500
        (qa_str qa_example (HTTPException 400 ''Question and context are required'')))"
    using t1 h1 by blast
  have b: "snd (summarize_text summary_example ?s1) =
      Inl (HTTPException 500 (summary_str summary_example (HTTPException 400 ''Text is required'')))"
    using t1 h2 by blast
  have c: "snd (summarize_text summary_example ?s2) =
      Inl (HTTPException 500
        (summary_str summary_example
          (HTTPException 400 ''max_length must be greater than min_length'')))"
    using t2 h3 by blast
  have "snd (answer_question qa_example ?q) = Inl (HTTPException 500 [])"
    using a by (simp add: qa_example_def)
  with t1 have d: "\<exists>c. snd (answer_question_try qa_example ?q) = Inl c
      \<and> HTTPException 500 [] = HTTPException 500 (qa_str qa_example c)"
    by blast
  show ?thesis
    using a b c d by (simp add: qa_example_def summary_example_def)
qed

text \<open>
  C3. The claim is that \<^verbatim>\<open>/summarize\<close> answers 400, without calling the summarizer,
  when the text is empty or \<^verbatim>\<open>max_length <= min_length\<close>, equality included. The code
  tests \<^verbatim>\<open>max_length < min_length\<close> although its message reads "max_length must be
  greater than min_length": with both lengths 50 the summarizer is called. And where
  the code does raise its 400 (empty text; \<^verbatim>\<open>max_length\<close> 10 below \<^verbatim>\<open>min_length\<close>
  50), the \<^verbatim>\<open>except\<close> clause replaces it by a 500, as for C1.
\<close>

theorem summarize_text_equal_lengths_reach_model:
  "inference_calls
     (summarize_text m \<lparr>text = ''Patient stable.'', max_length = Some 50, min_length = Some 50\<rparr>)
   = [CallSummarizer ''Patient stable.'' (Some 50) (Some 50) False]
 \<and> snd (summarize_text m \<lparr>text = '''', max_length = Some 150, min_length = Some 50\<rparr>)
   = Inl (HTTPException 500 (summary_str m (HTTPException 400 ''Text is required'')))
 \<and> snd (summarize_text m \<lparr>text = ''Patient stable.'', max_length = Some 10, min_length = Some 50\<rparr>)
   = Inl (HTTPException 500
       (summary_str m (HTTPException 400 ''max_length must be greater than min_length'')))"
  by (simp add: inference_calls_def summarize_text_calls summarize_text_snd
      summarize_text_try_valid summarize_text_try_empty summarize_text_try_less)

subsection \<open>Inference failures\<close>

text \<open>
  C4. When a handler has called its pipeline and the pipeline raised the exception \<open>e\<close>
  on the arguments of that request, the handler raises an \<open>HTTPException\<close> with status
  500 whose detail is \<^verbatim>\<open>str(e)\<close>, the rendering of \<open>e\<close> with nothing removed or
  replaced. This holds for \<^verbatim>\<open>/answer\<close> and for \<^verbatim>\<open>/summarize\<close>.
\<close>

theorem inference_failure_gives_500:
  "(inference_calls (answer_question m r) \<noteq> []
      \<and> qa_pipeline m (question r) (context r) = Inl e \<longrightarrow>
    snd (answer_question m r) = Inl (HTTPException 500 (qa_str m e))
      \<and> http_status (answer_question m r) = Some 500)
 \<and> (inference_calls (summarize_text m' r') \<noteq> []
      \<and> summarizer m' (text r') (max_length r') (min_length r') False = Inl e' \<longrightarrow>
    snd (summarize_text m' r') = Inl (HTTPException 500 (summary_str m' e'))
      \<and> http_status (summarize_text m' r') = Some 500)"
proof (intro conjI impI)
  assume a: "inference_calls (answer_question m r) \<noteq> []
      \<and> qa_pipeline m (question r) (context r) = Inl e"
  then have "question r \<noteq> [] \<and> context r \<noteq> []"
    using answer_question_try_called[of m r]
    by (simp add: inference_calls_def answer_question_calls)
  with a have "snd (answer_question_try m r) = Inl e"
    by (simp add: answer_question_try_pipeline_raises)
  then show "snd (answer_question m r) = Inl (HTTPException 500 (qa_str m e))"
    and "http_status (answer_question m r) = Some 500"
    by (simp_all add: answer_question_snd http_status_snd)
next
  assume a: "inference_calls (summarize_text m' r') \<noteq> []
      \<and> summarizer m' (text r') (max_length r') (min_length r') False = Inl e'"
  then have "text r' \<noteq> [] \<and> py_lt (max_length r') (min_length r') = Inr False"
    using summarize_text_try_called[of m' r']
    by (simp add: inference_calls_def summarize_text_calls)
  with a have "snd (summarize_text_try m' r') = Inl e'"
    by (simp add: summarize_text_try_pipeline_raises)
  then show "snd (summarize_text m' r') = Inl (HTTPException 500 (summary_str m' e'))"
    and "http_status (summarize_text m' r') = Some 500"
    by (simp_all add: summarize_text_snd http_status_snd)
qed

text \<open>The instance: both pipelines fail with "CUDA out of memory" on well-formed requests.\<close>

theorem inference_failure_gives_500_witness:
  "inference_calls (answer_question qa_failing
      \<lparr>question = ''What is the treatment for diabetes?'',
       context = ''Diabetes is a chronic condition.''\<rparr>) \<noteq> []
 \<and> qa_pipeline qa_failing ''What is the treatment for diabetes?''
      ''Diabetes is a chronic condition.'' = Inl (OtherException ''CUDA out of memory'')
 \<and> snd (answer_question qa_failing
      \<lparr>question = ''What is the treatment for diabetes?'',
       context = ''Diabetes is a chronic condition.''\<rparr>) =
     Inl (HTTPException 500 ''CUDA out of memory'')
 \<and> inference_calls (summarize_text summary_failing
      \<lparr>text = ''Patient stable.'', max_length = Some 100, min_length = Some 30\<rparr>) \<noteq> []
 \<and> summarizer summary_failing ''Patient stable.'' (Some 100) (Some 30) False =
     Inl (OtherException ''CUDA out of memory'')
 \<and> snd (summarize_text summary_failing
      \<lparr>text = ''Patient stable.'', max_length = Some 100, min_length = Some 30\<rparr>) =
     Inl (HTTPException 500 ''CUDA out of memory'')
 \<and> http_status (summarize_text summary_failing
      \<lparr>text = ''Patient stable.'', max_length = Some 100, min_length = Some 30\<rparr>) = Some 500"
proof -
  let ?q = "\<lparr>question = ''What is the treatment for diabetes?'',
             context = ''Diabetes is a chronic condition.''\<rparr>"
  let ?s = "\<lparr>text = ''Patient stable.'', max_length = Some 100, min_length = Some 30\<rparr>"
  let ?e = "OtherException ''CUDA out of memory''"
  have h1: "inference_calls (answer_question qa_failing ?q) \<noteq> []"
    by (simp add: inference_calls_def answer_question_calls answer_question_try_valid)
  have h2: "qa_pipeline qa_failing (question ?q) (context ?q) = Inl ?e"
    by (simp add: qa_failing_def)
  have h3: "inference_calls (summarize_text summary_failing ?s) \<noteq> []"
    by (simp add: inference_calls_def summarize_text_calls summarize_text_try_valid)
  have h4: "summarizer summary_failing (text ?s) (max_length ?s) (min_length ?s) False = Inl ?e"
    by (simp add: summary_failing_def)
  note t = inference_failure_gives_500
    [where m = qa_failing and r = ?q and e = ?e
       and m' = summary_failing and r' = ?s and e' = ?e]
  have c1: "snd (answer_question qa_failing ?q) = Inl (HTTPException 500 (qa_str qa_failing ?e))"
    using t h1 h2 by blast
  have c2: "snd (summarize_text summary_failing ?s) =
      Inl (HTTPException 500 (summary_str summary_failing ?e))
    \<and> http_status (summarize_text summary_failing ?s) = Some 500"
    using t h3 h4 by blast
  show ?thesis
    using h1 h2 h3 h4 c1 c2 by (simp add: qa_failing_def summary_failing_def)
qed

subsection \<open>Success responses\<close>

text \<open>
  C5. On a request that passes validation and on which the pipeline returns a well-formed
  result, the handler returns a dictionary with status "success" that carries the input
  unchanged: \<^verbatim>\<open>/answer\<close> returns the request's question under \<^verbatim>\<open>question\<close>, and
  \<^verbatim>\<open>/summarize\<close> returns the request's text under \<^verbatim>\<open>original_text\<close>.
\<close>

theorem success_response_echoes_input:
  "(question r \<noteq> [] \<and> context r \<noteq> []
      \<and> qa_pipeline m (question r) (context r) = Inr d
      \<and> d ''answer'' = Some a \<and> d ''score'' = Some s \<longrightarrow>
    snd (answer_question m r) =
      Inr [(''status'', PyStr ''success''), (''question'', PyStr (question r)),
           (''answer'', a), (''confidence'', s)])
 \<and> (text r' \<noteq> [] \<and> py_lt (max_length r') (min_length r') = Inr False
      \<and> summarizer m' (text r') (max_length r') (min_length r') False = Inr (d' # ds)
      \<and> d' ''summary_text'' = Some s' \<longrightarrow>
    snd (summarize_text m' r') =
      Inr [(''status'', PyStr ''success''), (''original_text'', PyStr (text r')),
           (''summary'', s')])"
  by (simp add: answer_question_snd summarize_text_snd answer_question_try_success
      summarize_text_try_success)

text \<open>
  The instance: the first scenario of the specification for \<^verbatim>\<open>/answer\<close>, and a short
  note with the lengths of the second scenario for \<^verbatim>\<open>/summarize\<close>.
\<close>

theorem success_response_echoes_input_witness:
  "qa_pipeline qa_example ''What is the treatment for diabetes?''
     ''Diabetes is a chronic condition requiring lifestyle changes and medications like metformin or insulin to manage blood sugar levels.''
     = Inr [''score'' \<mapsto> PyFloat 0.8923, ''start'' \<mapsto> PyInt 81, ''end'' \<mapsto> PyInt 101,
            ''answer'' \<mapsto> PyStr ''metformin or insulin'']
 \<and> snd (answer_question qa_example
      \<lparr>question = ''What is the treatment for diabetes?'',
       context = ''Diabetes is a chronic condition requiring lifestyle changes and medications like metformin or insulin to manage blood sugar levels.''\<rparr>) =
     Inr [(''status'', PyStr ''success''),
          (''question'', PyStr ''What is the treatment for diabetes?''),
          (''answer'', PyStr ''metformin or insulin''),
          (''confidence'', PyFloat 0.8923)]
 \<and> py_lt (Some 100) (Some 30) = Inr False
 \<and> snd (summarize_text summary_example
      \<lparr>text = ''Patient presents with a history of type 2 diabetes mellitus.'',
       max_length = Some 100, min_length = Some 30\<rparr>) =
     Inr [(''status'', PyStr ''success''),
          (''original_text'',
           PyStr ''Patient presents with a history of type 2 diabetes mellitus.''),
          (''summary'', PyStr ''Patient presents'')]"
proof -
  let ?q = "\<lparr>question = ''What is the treatment for diabetes?'',
             context = ''Diabetes is a chronic condition requiring lifestyle changes and medications like metformin or insulin to manage blood sugar levels.''\<rparr>"
  let ?s = "\<lparr>text = ''Patient presents with a history of type 2 diabetes mellitus.'',
             max_length = Some 100, min_length = Some 30\<rparr>"
  let ?d = "[''score'' \<mapsto> PyFloat (0.8923::real), ''start'' \<mapsto> PyInt 81, ''end'' \<mapsto> PyInt 101,
             ''answer'' \<mapsto> PyStr ''metformin or insulin'']"
  let ?d' = "[''summary_text'' \<mapsto> (PyStr ''Patient presents'' :: real py_value)]"
  have h1: "question ?q \<noteq> [] \<and> context ?q \<noteq> []
      \<and> qa_pipeline qa_example (question ?q) (context ?q) = Inr ?d
      \<and> ?d ''answer'' = Some (PyStr ''metformin or insulin'')
      \<and> ?d ''score'' = Some (PyFloat 0.8923)"
    by (simp add: qa_example_def)
  have h2: "text ?s \<noteq> [] \<and> py_lt (max_length ?s) (min_length ?s) = Inr False
      \<and> summarizer summary_example (text ?s) (max_length ?s) (min_length ?s) False
          = Inr (?d' # [])
      \<and> ?d' ''summary_text'' = Some (PyStr ''Patient presents'')"
    by (simp add: summary_example_def)
  note t = success_response_echoes_input
    [where m = qa_example and r = ?q and d = ?d and a = "PyStr ''metformin or insulin''"
       and s = "PyFloat 0.8923" and m' = summary_example and r' = ?s and d' = ?d'
       and ds = "[]" and s' = "PyStr ''Patient presents''"]
  have c1: "snd (answer_question qa_example ?q) =
      Inr [(''status'', PyStr ''success''), (''question'', PyStr (question ?q)),
           (''answer'', PyStr ''metformin or insulin''), (''confidence'', PyFloat 0.8923)]"
    using t h1 by blast
  have c2: "snd (summarize_text summary_example ?s) =
      Inr [(''status'', PyStr ''success''), (''original_text'', PyStr (text ?s)),
           (''summary'', PyStr ''Patient presents'')]"
    using t h2 by blast
  show ?thesis
    using h1 h2 c1 c2 by simp
qed

subsection \<open>The summarizer call\<close>

text \<open>
  C6. On a request to \<^verbatim>\<open>/summarize\<close> with a non-empty text and integer lengths that
  pass the ordering check, the summarizer is called exactly once, with the request's
  text, the request's \<^verbatim>\<open>max_length\<close> and \<^verbatim>\<open>min_length\<close> and \<^verbatim>\<open>do_sample=False\<close>; when
  that call returns a list whose first dictionary has a \<^verbatim>\<open>summary_text\<close>, the handler
  returns that value under \<^verbatim>\<open>summary\<close>.
\<close>

theorem summarizer_called_once_no_sampling:
  "text r \<noteq> [] \<and> max_length r = Some a \<and> min_length r = Some b \<and> \<not> a < b \<longrightarrow>
     inference_calls (summarize_text m r) = [CallSummarizer (text r) (Some a) (Some b) False]
   \<and> (summarizer m (text r) (Some a) (Some b) False = Inr (d # ds)
        \<and> d ''summary_text'' = Some s \<longrightarrow>
      snd (summarize_text m r) =
        Inr [(''status'', PyStr ''success''), (''original_text'', PyStr (text r)),
             (''summary'', s)])"
proof (intro impI)
  assume a: "text r \<noteq> [] \<and> max_length r = Some a \<and> min_length r = Some b \<and> \<not> a < b"
  then have v: "text r \<noteq> []" "py_lt (max_length r) (min_length r) = Inr False"
    by simp_all
  have calls: "inference_calls (summarize_text m r) =
      [CallSummarizer (text r) (Some a) (Some b) False]"
    using summarize_text_try_valid[OF v, of m] a
    by (simp add: inference_calls_def summarize_text_calls)
  have result: "snd (summarize_text m r) =
      Inr [(''status'', PyStr ''success''), (''original_text'', PyStr (text r)),
           (''summary'', s)]"
    if "summarizer m (text r) (Some a) (Some b) False = Inr (d # ds)
        \<and> d ''summary_text'' = Some s"
    using summarize_text_try_success[OF v, of m d ds s] that a
    by (simp add: summarize_text_snd)
  from calls result
  show "inference_calls (summarize_text m r) = [CallSummarizer (text r) (Some a) (Some b) False]
   \<and> (summarizer m (text r) (Some a) (Some b) False = Inr (d # ds)
        \<and> d ''summary_text'' = Some s \<longrightarrow>
      snd (summarize_text m r) =
        Inr [(''status'', PyStr ''success''), (''original_text'', PyStr (text r)),
             (''summary'', s)])"
    by blast
qed

text \<open>The instance: a short note with the lengths of the second scenario, 100 and 30.\<close>

theorem summarizer_called_once_no_sampling_witness:
  "text \<lparr>text = ''Patient presents with a history of type 2 diabetes mellitus.'',
         max_length = Some 100, min_length = Some 30\<rparr> \<noteq> []
 \<and> \<not> (100::int) < 30
 \<and> inference_calls (summarize_text summary_example
      \<lparr>text = ''Patient presents with a history of type 2 diabetes mellitus.'',
       max_length = Some 100, min_length = Some 30\<rparr>) =
     [CallSummarizer ''Patient presents with a history of type 2 diabetes mellitus.''
        (Some 100) (Some 30) False]
 \<and> summarizer summary_example
      ''Patient presents with a history of type 2 diabetes mellitus.'' (Some 100) (Some 30)
      False = Inr [[''summary_text'' \<mapsto> PyStr ''Patient presents'']]
 \<and> snd (summarize_text summary_example
      \<lparr>text = ''Patient presents with a history of type 2 diabetes mellitus.'',
       max_length = Some 100, min_length = Some 30\<rparr>) =
     Inr [(''status'', PyStr ''success''),
          (''original_text'',
           PyStr ''Patient presents with a history of type 2 diabetes mellitus.''),
          (''summary'', PyStr ''Patient presents'')]"
proof -
  let ?s = "\<lparr>text = ''Patient presents with a history of type 2 diabetes mellitus.'',
             max_length = Some 100, min_length = Some 30\<rparr>"
  let ?d = "[''summary_text'' \<mapsto> (PyStr ''Patient presents'' :: real py_value)]"
  have h1: "text ?s \<noteq> [] \<and> max_length ?s = Some 100 \<and> min_length ?s = Some 30
      \<and> \<not> (100::int) < 30"
    by simp
  have h2: "summarizer summary_example (text ?s) (Some 100) (Some 30) False = Inr (?d # [])
      \<and> ?d ''summary_text'' = Some (PyStr ''Patient presents'')"
    by (simp add: summary_example_def)
  note t = summarizer_called_once_no_sampling
    [where m = summary_example and r = ?s and a = 100 and b = 30 and d = ?d and ds = "[]"
       and s = "PyStr ''Patient presents''"]
  have c1: "inference_calls (summarize_text summary_example ?s) =
      [CallSummarizer (text ?s) (Some 100) (Some 30) False]"
    using t h1 by blast
  have c2: "snd (summarize_text summary_example ?s) =
      Inr [(''status'', PyStr ''success''), (''original_text'', PyStr (text ?s)),
           (''summary'', PyStr ''Patient presents'')]"
    using t h1 h2 by blast
  show ?thesis
    using h1 h2 c1 c2 by simp
qed

subsection \<open>Defaults of the summary request\<close>

text \<open>
  C7. A request body that leaves out \<^verbatim>\<open>max_length\<close> gets 150 and one that leaves out
  \<^verbatim>\<open>min_length\<close> gets 50. The two defaults are ordered, 150 above 50, so the comparison
  \<^verbatim>\<open>max_length < min_length\<close> is false on a request that gives only the text: with a
  non-empty text the handler goes on to call the summarizer with 150 and 50, and no
  such request gets status 400.
\<close>

theorem summary_request_defaults:
  "max_length (SummaryRequest_init t Omitted mn) = Some 150
 \<and> min_length (SummaryRequest_init t mx Omitted) = Some 50
 \<and> (150::int) > 50
 \<and> py_lt (max_length (SummaryRequest_init t Omitted Omitted))
          (min_length (SummaryRequest_init t Omitted Omitted)) = Inr False
 \<and> (t \<noteq> [] \<longrightarrow>
      inference_calls (summarize_text m (SummaryRequest_init t Omitted Omitted)) =
        [CallSummarizer t (Some 150) (Some 50) False])
 \<and> http_status (summarize_text m (SummaryRequest_init t Omitted Omitted)) \<noteq> Some 400"
proof -
  let ?r = "SummaryRequest_init t Omitted Omitted"
  have f: "text ?r = t" "max_length ?r = Some 150" "min_length ?r = Some 50"
    by (simp_all add: SummaryRequest_init_def)
  have lt: "py_lt (max_length ?r) (min_length ?r) = Inr False"
    by (simp add: f)
  have "inference_calls (summarize_text m ?r) = [CallSummarizer t (Some 150) (Some 50) False]"
    if "t \<noteq> []"
    using summarize_text_try_valid[of ?r m] that lt
    by (simp add: inference_calls_def summarize_text_calls f)
  moreover have "http_status (summarize_text m ?r) \<noteq> Some 400"
    by (simp add: http_status_snd summarize_text_snd split: sum.splits)
  ultimately show ?thesis
    using lt by (simp add: SummaryRequest_init_def)
qed

text \<open>The instance: a body that holds only a short note.\<close>

theorem summary_request_defaults_witness:
  "''Patient stable.'' \<noteq> []
 \<and> SummaryRequest_init ''Patient stable.'' Omitted Omitted =
     \<lparr>text = ''Patient stable.'', max_length = Some 150, min_length = Some 50\<rparr>
 \<and> inference_calls
      (summarize_text summary_example (SummaryRequest_init ''Patient stable.'' Omitted Omitted)) =
     [CallSummarizer ''Patient stable.'' (Some 150) (Some 50) False]"
proof -
  have h: "''Patient stable.'' \<noteq> []" by simp
  note t = summary_request_defaults
    [where t = "''Patient stable.''" and mn = Omitted and mx = Omitted and m = summary_example]
  have c: "inference_calls
      (summarize_text summary_example (SummaryRequest_init ''Patient stable.'' Omitted Omitted)) =
     [CallSummarizer ''Patient stable.'' (Some 150) (Some 50) False]"
    using t h by blast
  show ?thesis
    using c by (simp add: SummaryRequest_init_def)
qed

subsection \<open>A null length\<close>

text \<open>
  C9. A request body with a non-empty text and an explicit \<^verbatim>\<open>null\<close> for
  \<^verbatim>\<open>max_length\<close> or for \<^verbatim>\<open>min_length\<close> builds a request object, since both fields are
  \<^verbatim>\<open>Optional[int]\<close>. The comparison \<^verbatim>\<open>max_length < min_length\<close> then has a \<^verbatim>\<open>None\<close>
  operand and raises \<open>TypeError\<close>; the \<^verbatim>\<open>except\<close> clause catches it, so the handler
  raises status 500 with the rendering of the \<open>TypeError\<close>, and the summarizer is not
  called.
\<close>

theorem null_length_gives_500:
  "t \<noteq> [] \<and> (mx = Given None \<or> mn = Given None) \<longrightarrow>
     (\<exists>msg. snd (summarize_text_try m (SummaryRequest_init t mx mn)) = Inl (TypeError msg)
        \<and> snd (summarize_text m (SummaryRequest_init t mx mn)) =
            Inl (HTTPException 500 (summary_str m (TypeError msg))))
   \<and> http_status (summarize_text m (SummaryRequest_init t mx mn)) = Some 500
   \<and> inference_calls (summarize_text m (SummaryRequest_init t mx mn)) = []"
proof (intro impI)
  let ?r = "SummaryRequest_init t mx mn"
  assume a: "t \<noteq> [] \<and> (mx = Given None \<or> mn = Given None)"
  then have "max_length ?r = None \<or> min_length ?r = None"
    by (auto simp: SummaryRequest_init_def)
  then obtain msg where lt: "py_lt (max_length ?r) (min_length ?r) = Inl (TypeError msg)"
    using py_lt_None by blast
  have t: "text ?r \<noteq> []"
    using a by (simp add: SummaryRequest_init_def)
  note body = summarize_text_try_compare_raises[OF t lt, of m]
  have "snd (summarize_text_try m ?r) = Inl (TypeError msg)"
    by (simp add: body)
  moreover have "snd (summarize_text m ?r) =
      Inl (HTTPException 500 (summary_str m (TypeError msg)))"
    by (simp add: summarize_text_snd body)
  moreover have "http_status (summarize_text m ?r) = Some 500"
    by (simp add: http_status_snd summarize_text_snd body)
  moreover have "inference_calls (summarize_text m ?r) = []"
    by (simp add: inference_calls_def summarize_text_calls body)
  ultimately show "(\<exists>msg. snd (summarize_text_try m ?r) = Inl (TypeError msg)
        \<and> snd (summarize_text m ?r) =
            Inl (HTTPException 500 (summary_str m (TypeError msg))))
   \<and> http_status (summarize_text m ?r) = Some 500
   \<and> inference_calls (summarize_text m ?r) = []"
    by blast
qed

text \<open>The instance: \<^verbatim>\<open>{"text": "Patient stable.", "max_length": null}\<close>.\<close>

theorem null_length_gives_500_witness:
  "''Patient stable.'' \<noteq> []
 \<and> SummaryRequest_init ''Patient stable.'' (Given None) Omitted =
     \<lparr>text = ''Patient stable.'', max_length = None, min_length = Some 50\<rparr>
 \<and> http_status
      (summarize_text summary_example
        (SummaryRequest_init ''Patient stable.'' (Given None) Omitted)) = Some 500
 \<and> inference_calls
      (summarize_text summary_example
        (SummaryRequest_init ''Patient stable.'' (Given None) Omitted)) = []
 \<and> snd (summarize_text summary_example
        (SummaryRequest_init ''Patient stable.'' (Given None) Omitted)) =
     Inl (HTTPException 500 (not_supported ''NoneType'' ''int''))"
proof -
  let ?r = "SummaryRequest_init ''Patient stable.'' (Given None) Omitted"
  have h: "''Patient stable.'' \<noteq> [] \<and> (Given None = Given (None :: int option)
      \<or> Omitted = Given (None :: int option))"
    by simp
  note t = null_length_gives_500
    [where t = "''Patient stable.''" and mx = "Given None" and mn = Omitted
       and m = summary_example]
  from t h obtain msg where
    c: "snd (summarize_text_try summary_example ?r) = Inl (TypeError msg)"
       "snd (summarize_text summary_example ?r) =
          Inl (HTTPException 500 (summary_str summary_example (TypeError msg)))"
       "http_status (summarize_text summary_example ?r) = Some 500"
       "inference_calls (summarize_text summary_example ?r) = []"
    by blast
  have "snd (summarize_text_try summary_example ?r) =
      Inl (TypeError (not_supported ''NoneType'' ''int''))"
    by (simp add: SummaryRequest_init_def summarize_text_try_def py_not_def)
  with c(1) have "msg = not_supported ''NoneType'' ''int''"
    by simp
  with c show ?thesis
    by (simp add: SummaryRequest_init_def summary_example_def)
qed

subsection \<open>What the emptiness checks accept\<close>

text \<open>
  C10, as the code has it. The claim says that every request whose question, context or
  text is made of whitespace alone passes validation and reaches the pipeline with that
  input. The checks do accept a whitespace string, but each handler has more than one
  check: a question of one space with an empty context is refused by \<^verbatim>\<open>not context\<close>,
  and a text of one space is refused when \<^verbatim>\<open>max_length < min_length\<close> or when a length
  is \<^verbatim>\<open>None\<close>. On these requests no pipeline is called.
\<close>

theorem whitespace_field_counterexample:
  "inference_calls (answer_question qa_example \<lparr>question = '' '', context = ''''\<rparr>) = []
 \<and> snd (answer_question_try qa_example \<lparr>question = '' '', context = ''''\<rparr>) =
     Inl (HTTPException 400 ''Question and context are required'')
 \<and> inference_calls (summarize_text summary_example
      \<lparr>text = '' '', max_length = Some 10, min_length = Some 50\<rparr>) = []
 \<and> snd (summarize_text_try summary_example
      \<lparr>text = '' '', max_length = Some 10, min_length = Some 50\<rparr>) =
     Inl (HTTPException 400 ''max_length must be greater than min_length'')
 \<and> inference_calls (summarize_text summary_example
      \<lparr>text = '' '', max_length = None, min_length = Some 50\<rparr>) = []"
  by (simp add: inference_calls_def answer_question_calls summarize_text_calls
      answer_question_try_invalid summarize_text_try_less summarize_text_try_compare_raises)

text \<open>
  C10, amended. The checks \<^verbatim>\<open>not question\<close>, \<^verbatim>\<open>not context\<close> and \<^verbatim>\<open>not text\<close> are
  true for the empty string only. For every request to \<^verbatim>\<open>/answer\<close> whose question and
  context are both non-empty, whitespace-only strings such as a single space included,
  validation passes: the pipeline is called once, with exactly these two strings, and
  the outcome of the handler is what the code makes of the result of that call. For
  every request to \<^verbatim>\<open>/summarize\<close> whose text is non-empty, whitespace-only included, and
  whose lengths are integers with \<^verbatim>\<open>max_length < min_length\<close> false, the summarizer is
  called once, with exactly this text, and the outcome is what the code makes of the
  result of that call.
\<close>

theorem nonempty_passes_emptiness_checks:
  "(py_not s \<longleftrightarrow> s = [])
 \<and> (question r \<noteq> [] \<and> context r \<noteq> [] \<longrightarrow>
      inference_calls (answer_question m r) = [CallQA (question r) (context r)]
    \<and> snd (answer_question m r) =
        (case qa_pipeline m (question r) (context r) of
           Inl e \<Rightarrow> Inl (HTTPException 500 (qa_str m e))
         | Inr result \<Rightarrow>
             (case result ''answer'' of
                None \<Rightarrow> Inl (HTTPException 500 (qa_str m (KeyError ''answer'')))
              | Some a \<Rightarrow>
                  (case result ''score'' of
                     None \<Rightarrow> Inl (HTTPException 500 (qa_str m (KeyError ''score'')))
                   | Some sc \<Rightarrow>
                       Inr [(''status'', PyStr ''success''),
                            (''question'', PyStr (question r)),
                            (''answer'', a), (''confidence'', sc)]))))
 \<and> (text r' \<noteq> [] \<and> py_lt (max_length r') (min_length r') = Inr False \<longrightarrow>
      inference_calls (summarize_text m' r') =
        [CallSummarizer (text r') (max_length r') (min_length r') False]
    \<and> snd (summarize_text m' r') =
        (case summarizer m' (text r') (max_length r') (min_length r') False of
           Inl e \<Rightarrow> Inl (HTTPException 500 (summary_str m' e))
         | Inr [] \<Rightarrow>
             Inl (HTTPException 500 (summary_str m' (IndexError ''list index out of range'')))
         | Inr (first # rest) \<Rightarrow>
             (case first ''summary_text'' of
                None \<Rightarrow> Inl (HTTPException 500 (summary_str m' (KeyError ''summary_text'')))
              | Some summary \<Rightarrow>
                  Inr [(''status'', PyStr ''success''),
                       (''original_text'', PyStr (text r')),
                       (''summary'', summary)])))"
proof (intro conjI impI)
  show "py_not s \<longleftrightarrow> s = []"
    by (simp add: py_not_def)
next
  assume a: "question r \<noteq> [] \<and> context r \<noteq> []"
  then show "inference_calls (answer_question m r) = [CallQA (question r) (context r)]"
    by (simp add: inference_calls_def answer_question_calls answer_question_try_valid)
  from a show "snd (answer_question m r) =
        (case qa_pipeline m (question r) (context r) of
           Inl e \<Rightarrow> Inl (HTTPException 500 (qa_str m e))
         | Inr result \<Rightarrow>
             (case result ''answer'' of
                None \<Rightarrow> Inl (HTTPException 500 (qa_str m (KeyError ''answer'')))
              | Some a \<Rightarrow>
                  (case result ''score'' of
                     None \<Rightarrow> Inl (HTTPException 500 (qa_str m (KeyError ''score'')))
                   | Some sc \<Rightarrow>
                       Inr [(''status'', PyStr ''success''),
                            (''question'', PyStr (question r)),
                            (''answer'', a), (''confidence'', sc)])))"
    by (simp add: answer_question_snd answer_question_try_def py_not_def Let_def
        split: sum.splits option.splits)
next
  assume a: "text r' \<noteq> [] \<and> py_lt (max_length r') (min_length r') = Inr False"
  then show "inference_calls (summarize_text m' r') =
        [CallSummarizer (text r') (max_length r') (min_length r') False]"
    by (simp add: inference_calls_def summarize_text_calls summarize_text_try_valid)
  from a show "snd (summarize_text m' r') =
        (case summarizer m' (text r') (max_length r') (min_length r') False of
           Inl e \<Rightarrow> Inl (HTTPException 500 (summary_str m' e))
         | Inr [] \<Rightarrow>
             Inl (HTTPException 500 (summary_str m' (IndexError ''list index out of range'')))
         | Inr (first # rest) \<Rightarrow>
             (case first ''summary_text'' of
                None \<Rightarrow> Inl (HTTPException 500 (summary_str m' (KeyError ''summary_text'')))
              | Some summary \<Rightarrow>
                  Inr [(''status'', PyStr ''success''),
                       (''original_text'', PyStr (text r')),
                       (''summary'', summary)]))"
    by (simp add: summarize_text_snd summarize_text_try_def py_not_def Let_def
        split: sum.splits option.splits list.splits)
qed

text \<open>The instance: every field is a single space, the lengths are the defaults.\<close>

theorem nonempty_passes_emptiness_checks_witness:
  "\<not> py_not '' ''
 \<and> inference_calls (answer_question qa_example \<lparr>question = '' '', context = '' ''\<rparr>) =
     [CallQA '' '' '' '']
 \<and> snd (answer_question qa_example \<lparr>question = '' '', context = '' ''\<rparr>) =
     Inr [(''status'', PyStr ''success''), (''question'', PyStr '' ''),
          (''answer'', PyStr ''metformin or insulin''), (''confidence'', PyFloat 0.8923)]
 \<and> py_lt (Some 150) (Some 50) = Inr False
 \<and> inference_calls (summarize_text summary_example
      \<lparr>text = '' '', max_length = Some 150, min_length = Some 50\<rparr>) =
     [CallSummarizer '' '' (Some 150) (Some 50) False]
 \<and> snd (summarize_text summary_example
      \<lparr>text = '' '', max_length = Some 150, min_length = Some 50\<rparr>) =
     Inr [(''status'', PyStr ''success''), (''original_text'', PyStr '' ''),
          (''summary'', PyStr '' '')]"
proof -
  let ?q = "\<lparr>question = '' '', context = '' ''\<rparr>"
  let ?s = "\<lparr>text = '' '', max_length = Some 150, min_length = Some 50\<rparr>"
  have h1: "question ?q \<noteq> [] \<and> context ?q \<noteq> []" by simp
  have h2: "text ?s \<noteq> [] \<and> py_lt (max_length ?s) (min_length ?s) = Inr False" by simp
  note t = nonempty_passes_emptiness_checks
    [where s = "'' ''" and r = ?q and m = qa_example and r' = ?s and m' = summary_example]
  have c0: "\<not> py_not '' ''"
    using t by simp
  have c1: "inference_calls (answer_question qa_example ?q) = [CallQA (question ?q) (context ?q)]"
    using t h1 by blast
  have c2: "snd (answer_question qa_example ?q) =
        (case qa_pipeline qa_example (question ?q) (context ?q) of
           Inl e \<Rightarrow> Inl (HTTPException 500 (qa_str qa_example e))
         | Inr result \<Rightarrow>
             (case result ''answer'' of
                None \<Rightarrow> Inl (HTTPException 500 (qa_str qa_example (KeyError ''answer'')))
              | Some a \<Rightarrow>
                  (case result ''score'' of
                     None \<Rightarrow> Inl (HTTPException 500 (qa_str qa_example (KeyError ''score'')))
                   | Some sc \<Rightarrow>
                       Inr [(''status'', PyStr ''success''),
                            (''question'', PyStr (question ?q)),
                            (''answer'', a), (''confidence'', sc)])))"
    using t h1 by blast
  have c3: "inference_calls (summarize_text summary_example ?s) =
      [CallSummarizer (text ?s) (max_length ?s) (min_length ?s) False]"
    using t h2 by blast
  have c4: "snd (summarize_text summary_example ?s) =
        (case summarizer summary_example (text ?s) (max_length ?s) (min_length ?s) False of
           Inl e \<Rightarrow> Inl (HTTPException 500 (summary_str summary_example e))
         | Inr [] \<Rightarrow>
             Inl (HTTPException 500
               (summary_str summary_example (IndexError ''list index out of range'')))
         | Inr (first # rest) \<Rightarrow>
             (case first ''summary_text'' of
                None \<Rightarrow>
                  Inl (HTTPException 500 (summary_str summary_example (KeyError ''summary_text'')))
              | Some summary \<Rightarrow>
                  Inr [(''status'', PyStr ''success''),
                       (''original_text'', PyStr (text ?s)),
                       (''summary'', summary)]))"
    using t h2 by blast
  have p1: "qa_pipeline qa_example '' '' '' '' =
      Inr [''score'' \<mapsto> PyFloat 0.8923, ''start'' \<mapsto> PyInt 81, ''end'' \<mapsto> PyInt 101,
           ''answer'' \<mapsto> PyStr ''metformin or insulin'']"
    by (simp add: qa_example_def)
  have p2: "summarizer summary_example '' '' (Some 150) (Some 50) False =
      Inr [[''summary_text'' \<mapsto> PyStr '' '']]"
    by (simp add: summary_example_def)
  show ?thesis
    using c0 c1 c2 c3 c4 by (simp add: p1 p2)
qed

end
